theory Spec2Isabelle
  imports Complex_Main
begin

section \<open>JavaScript values shared by the connectors\<close>

text \<open>
  The connectors are asynchronous JavaScript. A call is modelled by the state in which
  its promise ends: resolved with a value, rejected with a reason, or never settled
  (\<open>Pending\<close>: neither \<open>resolve\<close> nor \<open>reject\<close> is ever called). A promise
  settles once: a later \<open>resolve\<close> or \<open>reject\<close> is ignored.

  Strings are lists of 8-bit characters, read as the code units of the JavaScript string
  (so the model covers code units below 256). An attribute or JSON field that may be
  missing is an \<open>option\<close>; JavaScript's truthiness test \<open>if (x)\<close> on such a value
  holds when the value is there and is not the empty string.
\<close>

datatype js_error =
    TypeError
  | Error string
  | NoReason
  | Failure string

datatype 'a promise = Resolved 'a | Rejected js_error | Pending

definition settle :: "'a promise \<Rightarrow> 'a promise \<Rightarrow> 'a promise" where
  "settle p outcome = (case p of Pending \<Rightarrow> outcome | _ \<Rightarrow> p)"

definition truthy :: "string option \<Rightarrow> bool" where
  "truthy v = (case v of None \<Rightarrow> False | Some s \<Rightarrow> s \<noteq> [])"

subsection \<open>String methods\<close>

text \<open>\<open>s.split(sep)\<close> for a one-character separator: never the empty list.\<close>

fun js_split :: "char \<Rightarrow> string \<Rightarrow> string list" where
  "js_split sep [] = [[]]"
| "js_split sep (c # cs) =
     (if c = sep then [] # js_split sep cs
      else (case js_split sep cs of
              [] \<Rightarrow> [[c]]
            | p # ps \<Rightarrow> (c # p) # ps))"

text \<open>An array element inside a template literal: a missing element prints as
  \<open>undefined\<close>.\<close>

definition template_elem :: "string list \<Rightarrow> nat \<Rightarrow> string" where
  "template_elem xs i = (if i < length xs then xs ! i else ''undefined'')"

text \<open>\<open>s.substring(n)\<close>.\<close>

definition substring :: "string \<Rightarrow> nat \<Rightarrow> string" where
  "substring s n = drop n s"

text \<open>
  \<open>s.replace(pattern, replacement)\<close> with a string pattern: only the first
  occurrence is replaced, and the replacement text is expanded as the language defines it
  (\<open>$$\<close> is a dollar sign, \<open>$&\<close> the matched text, \<open>$`\<close> the text before
  the match and \<open>$'\<close> the text after it; a string pattern has no capture groups, so
  every other \<open>$\<close> stands for itself).
\<close>

fun first_match :: "string \<Rightarrow> string \<Rightarrow> (string \<times> string) option" where
  "first_match pat [] = (if pat = [] then Some ([], []) else None)"
| "first_match pat (c # cs) =
     (if take (length pat) (c # cs) = pat then Some ([], drop (length pat) (c # cs))
      else (case first_match pat cs of
              None \<Rightarrow> None
            | Some (front, rest) \<Rightarrow> Some (c # front, rest)))"

fun GetSubstitution :: "string \<Rightarrow> string \<Rightarrow> string \<Rightarrow> string \<Rightarrow> string" where
  "GetSubstitution matched front rest [] = []"
| "GetSubstitution matched front rest [c] = [c]"
| "GetSubstitution matched front rest (c # d # ds) =
     (if c = CHR ''$'' \<and> d = CHR ''$'' then CHR ''$'' # GetSubstitution matched front rest ds
      else if c = CHR ''$'' \<and> d = CHR ''&'' then matched @ GetSubstitution matched front rest ds
      else if c = CHR ''$'' \<and> d = CHR 0x60 then front @ GetSubstitution matched front rest ds
      else if c = CHR ''$'' \<and> d = CHR 0x27 then rest @ GetSubstitution matched front rest ds
      else c # GetSubstitution matched front rest (d # ds))"

definition replace :: "string \<Rightarrow> string \<Rightarrow> string \<Rightarrow> string" where
  "replace s pat replacement =
     (case first_match pat s of
        None \<Rightarrow> s
      | Some (front, rest) \<Rightarrow> front @ GetSubstitution pat front rest replacement @ rest)"

subsection \<open>Global functions\<close>

text \<open>
  \<open>encodeURIComponent\<close>: letters, digits and \<open>- _ . ! ~ * ' ( )\<close> stay; every
  other code unit is written as the percent-encoded bytes of its UTF-8 form (one byte
  below 128, two bytes from 128 to 255).
\<close>

definition hex_digit :: "string \<Rightarrow> nat \<Rightarrow> char" where
  "hex_digit digits n = digits ! (n mod 16)"

definition percent_byte :: "nat \<Rightarrow> string" where
  "percent_byte n =
     [CHR ''%'', hex_digit ''0123456789ABCDEF'' (n div 16), hex_digit ''0123456789ABCDEF'' n]"

definition uri_unreserved :: "char \<Rightarrow> bool" where
  "uri_unreserved c =
     (c \<in> set ''ABCDEFGHIJKLMNOPQRSTUVWXYZabcdefghijklmnopqrstuvwxyz0123456789-_.!~*()''
      \<or> c = CHR 0x27)"

definition encode_unit :: "char \<Rightarrow> string" where
  "encode_unit c =
     (let n = (of_char c :: nat) in
      if uri_unreserved c then [c]
      else if n < 128 then percent_byte n
      else percent_byte (192 + n div 64) @ percent_byte (128 + n mod 64))"

definition encodeURIComponent :: "string \<Rightarrow> string" where
  "encodeURIComponent s = concat (map encode_unit s)"


text \<open>
  \<open>JSON.stringify\<close> of a string: the text between double quotes, with the quote, the
  backslash and the control characters escaped.
\<close>

definition json_escape :: "char \<Rightarrow> string" where
  "json_escape c =
     (let n = (of_char c :: nat) in
      if n = 0x22 then [CHR 0x5C, CHR 0x22]
      else if n = 0x5C then [CHR 0x5C, CHR 0x5C]
      else if n = 0x08 then [CHR 0x5C, CHR ''b'']
      else if n = 0x0C then [CHR 0x5C, CHR ''f'']
      else if n = 0x0A then [CHR 0x5C, CHR ''n'']
      else if n = 0x0D then [CHR 0x5C, CHR ''r'']
      else if n = 0x09 then [CHR 0x5C, CHR ''t'']
      else if n < 0x20 then
        [CHR 0x5C, CHR ''u'', CHR ''0'', CHR ''0'',
         hex_digit ''0123456789abcdef'' (n div 16), hex_digit ''0123456789abcdef'' n]
      else [c])"

definition json_string :: "string \<Rightarrow> string" where
  "json_string s = [CHR 0x22] @ concat (map json_escape s) @ [CHR 0x22]"

section \<open>The reconciliation-service connector\<close>

subsection \<open>The manifest and the connector's fields\<close>

text \<open>
  The manifest is the JSON document the service describes itself with. The connector
  reads three of its fields: \<open>versions\<close>, and the \<open>url\<close> of \<open>preview\<close> and of
  \<open>view\<close>. \<open>register\<close> and \<open>prefix\<close> are the fields \<open>_register\<close> and
  \<open>_prefix\<close> of the base class; \<open>ReconcConfig\<close> is missing until the manifest
  has arrived; \<open>reconcVersion\<close> is \<open>None\<close> when the field holds no version string
  (\<open>undefined\<close> before the manifest arrives, \<open>null\<close> when no version was chosen).
\<close>

record template =
  url :: string

record manifest =
  versions :: "string list option"
  preview :: "template option"
  view :: "template option"

record ReconciliationService =
  register :: string
  prefix :: "string option"
  endpoint :: string
  processLang :: "string option"
  acceptLang :: "string option"
  ReconcConfig :: "manifest option"
  reconcVersion :: "string option"

subsection \<open>Version negotiation\<close>

text \<open>
  The connector imports \<open>valid\<close> and \<open>maxSatisfying\<close> from the package
  \<open>es-semver\<close>, which is not part of this repository. The package's judgements on
  single version strings are parameters of the model: \<open>valid v\<close> (the string parses as
  a version, in the loose mode the connector asks for), \<open>satisfies v r\<close> (the version
  lies in the range \<open>r\<close>) and \<open>precedes a b\<close> (version \<open>a\<close> compares below
  \<open>b\<close>). \<open>maxSatisfying\<close> follows the package's documentation (the highest
  version in the list that satisfies the range, or \<open>null\<close> if none of them do) as
  one pass over the list that keeps the greatest version seen so far that lies in the
  range.
\<close>

record semver =
  valid :: "string \<Rightarrow> bool"
  satisfies :: "string \<Rightarrow> string \<Rightarrow> bool"
  precedes :: "string \<Rightarrow> string \<Rightarrow> bool"

fun maxSatisfying_loop :: "semver \<Rightarrow> string \<Rightarrow> string option \<Rightarrow> string list \<Rightarrow> string option" where
  "maxSatisfying_loop lib rng mx [] = mx"
| "maxSatisfying_loop lib rng mx (v # vs) =
     maxSatisfying_loop lib rng
       (if satisfies lib v rng then
          (case mx of
             None \<Rightarrow> Some v
           | Some m \<Rightarrow> if precedes lib m v then Some v else Some m)
        else mx)
       vs"

definition maxSatisfying :: "semver \<Rightarrow> string list \<Rightarrow> string \<Rightarrow> string option" where
  "maxSatisfying lib vs rng = maxSatisfying_loop lib rng None vs"

text \<open>
  The function the constructor maps over the advertised versions: a string that is not
  a version but becomes one with \<open>.0\<close> appended gets it appended; otherwise a string
  that is not a version but becomes one when \<open>.0\<close> is put before its first hyphen is
  rebuilt from its first two hyphen-separated parts; every other string is kept.
\<close>

definition normalizeVersion :: "semver \<Rightarrow> string \<Rightarrow> string" where
  "normalizeVersion lib v =
     (if \<not> valid lib v \<and> valid lib (v @ ''.0'') then v @ ''.0''
      else if \<not> valid lib v \<and>
              valid lib (template_elem (js_split CHR ''-'' v) 0 @ ''.0-'' @
                         template_elem (js_split CHR ''-'' v) 1)
      then template_elem (js_split CHR ''-'' v) 0 @ ''.0-'' @
           template_elem (js_split CHR ''-'' v) 1
      else v)"

text \<open>
  What the constructor does when the manifest arrives: it stores the manifest, normalises
  the advertised versions when the field is there (an empty list is there, too), and
  chooses the version: \<open>0.1.0\<close> when the field is missing, the greatest advertised
  version below \<open>0.3.1\<close> otherwise.
\<close>

definition receiveManifest :: "semver \<Rightarrow> manifest \<Rightarrow> ReconciliationService \<Rightarrow> ReconciliationService" where
  "receiveManifest lib result this =
     (let config =
            (case versions result of
               None \<Rightarrow> result
             | Some vs \<Rightarrow> result\<lparr>versions := Some (map (normalizeVersion lib) vs)\<rparr>)
      in this\<lparr>ReconcConfig := Some config,
              reconcVersion :=
                (case versions config of
                   None \<Rightarrow> Some ''0.1.0''
                 | Some vs \<Rightarrow> maxSatisfying lib vs ''<0.3.1'')\<rparr>)"

subsection \<open>An instance of the package for concrete runs\<close>

text \<open>
  To run the connector on concrete manifests the package's judgements are instantiated
  for version strings of the form \<open>MAJOR.MINOR.PATCH\<close> with an optional
  \<open>-TAG\<close>: such a string is a version. Versions are ordered by their three numbers;
  of two versions with the same numbers a tagged one lies below the one without a tag,
  and two tags are compared part by part, the parts being separated by dots: two
  numbers by their value, a number below every other part, two other parts by their
  characters, and a tag that runs out first below the longer one. The only range is the
  connector's \<open><0.3.1\<close>. The general theorems below hold for every instance; this
  one only instantiates them.
\<close>

definition all_digits :: "string \<Rightarrow> bool" where
  "all_digits s = (s \<noteq> [] \<and> list_all (\<lambda>c. c \<in> set ''0123456789'') s)"

definition decimal :: "string \<Rightarrow> nat" where
  "decimal s = foldl (\<lambda>n c. 10 * n + (of_char c - 48)) 0 s"

definition numbers_of :: "string \<Rightarrow> nat list" where
  "numbers_of v = map decimal (js_split CHR ''.'' (takeWhile (\<lambda>c. c \<noteq> CHR ''-'') v))"

definition tag_of :: "string \<Rightarrow> string option" where
  "tag_of v = (case dropWhile (\<lambda>c. c \<noteq> CHR ''-'') v of [] \<Rightarrow> None | c # cs \<Rightarrow> Some cs)"

fun numbers_less :: "nat list \<Rightarrow> nat list \<Rightarrow> bool" where
  "numbers_less (a # as) (b # bs) = (a < b \<or> (a = b \<and> numbers_less as bs))"
| "numbers_less as bs = False"

fun characters_less :: "string \<Rightarrow> string \<Rightarrow> bool" where
  "characters_less (a # as) (b # bs) =
     ((of_char a :: nat) < of_char b \<or> (a = b \<and> characters_less as bs))"
| "characters_less [] (b # bs) = True"
| "characters_less as [] = False"

definition part_less :: "string \<Rightarrow> string \<Rightarrow> bool" where
  "part_less a b =
     (if all_digits a \<and> all_digits b then decimal a < decimal b
      else if all_digits a then True
      else if all_digits b then False
      else characters_less a b)"

fun parts_less :: "string list \<Rightarrow> string list \<Rightarrow> bool" where
  "parts_less (a # as) (b # bs) =
     (part_less a b \<or> (part_less b a = False \<and> parts_less as bs))"
| "parts_less [] (b # bs) = True"
| "parts_less as [] = False"

definition tag_less :: "string option \<Rightarrow> string option \<Rightarrow> bool" where
  "tag_less s t =
     (case s of
        None \<Rightarrow> False
      | Some a \<Rightarrow>
          (case t of
             None \<Rightarrow> True
           | Some b \<Rightarrow> parts_less (js_split CHR ''.'' a) (js_split CHR ''.'' b)))"

definition plain_valid :: "string \<Rightarrow> bool" where
  "plain_valid v =
     (let parts = js_split CHR ''.'' (takeWhile (\<lambda>c. c \<noteq> CHR ''-'') v)
      in length parts = 3 \<and> list_all all_digits parts \<and> tag_of v \<noteq> Some [])"

definition plain_precedes :: "string \<Rightarrow> string \<Rightarrow> bool" where
  "plain_precedes a b =
     (numbers_less (numbers_of a) (numbers_of b)
      \<or> (numbers_of a = numbers_of b \<and> tag_less (tag_of a) (tag_of b)))"

definition plain_satisfies :: "string \<Rightarrow> string \<Rightarrow> bool" where
  "plain_satisfies v rng = (plain_valid v \<and> rng = ''<0.3.1'' \<and> plain_precedes v ''0.3.1'')"

definition plain_semver :: semver where
  "plain_semver = \<lparr>valid = plain_valid, satisfies = plain_satisfies, precedes = plain_precedes\<rparr>"

subsection \<open>Building the request\<close>

text \<open>
  \<open>queryObj\<close> returns one of two objects: \<open>{queries: [{query: key}]}\<close> or
  \<open>{q0: {query: key}}\<close>. An entry may later be given a \<open>lang\<close> field.
\<close>

record query_entry =
  query :: string
  lang :: "string option"

datatype query_object = Queries "query_entry list" | Q0 query_entry

fun queryObj :: "string option \<Rightarrow> string \<Rightarrow> query_object" where
  "queryObj version key =
     (if version = Some ''0.3.0-alpha'' then Queries [\<lparr>query = key, lang = None\<rparr>]
      else Q0 \<lparr>query = key, lang = None\<rparr>)"

text \<open>\<open>xs.join(sep)\<close> and \<open>JSON.stringify\<close> of the two query objects.\<close>

fun join :: "string list \<Rightarrow> string \<Rightarrow> string" where
  "join [] sep = []"
| "join [x] sep = x"
| "join (x # y # ys) sep = x @ sep @ join (y # ys) sep"

definition stringify_entry :: "query_entry \<Rightarrow> string" where
  "stringify_entry e =
     ''{'' @ json_string ''query'' @ '':'' @ json_string (query e) @
     (case lang e of None \<Rightarrow> [] | Some l \<Rightarrow> '','' @ json_string ''lang'' @ '':'' @ json_string l) @
     ''}''"

fun JSON_stringify :: "query_object \<Rightarrow> string" where
  "JSON_stringify (Queries es) =
     ''{'' @ json_string ''queries'' @ '':['' @ join (map stringify_entry es) '','' @ '']}''"
| "JSON_stringify (Q0 e) = ''{'' @ json_string ''q0'' @ '':'' @ stringify_entry e @ ''}''"

text \<open>
  The second argument of \<open>fetch\<close>. Its body is a JavaScript value: a string (here
  always the case, since both branches of \<open>qRequestInit\<close> build a string) or an
  object. Headers are an object, kept as the list of its properties in insertion order;
  \<open>assign\<close> is the assignment \<open>obj[k] = v\<close>.
\<close>

datatype body_value = Text string | Object query_object

record RequestInit =
  request_method :: string
  headers :: "(string \<times> string) list"
  body :: body_value

fun assign :: "(string \<times> 'a) list \<Rightarrow> string \<Rightarrow> 'a \<Rightarrow> (string \<times> 'a) list" where
  "assign [] k v = [(k, v)]"
| "assign ((k', v') # kvs) k v =
     (if k' = k then (k, v) # kvs else (k', v') # assign kvs k v)"

fun qRequestInit :: "string option \<Rightarrow> string \<Rightarrow> RequestInit" where
  "qRequestInit version key =
     (if version = Some ''0.3.0-alpha'' then
        \<lparr>request_method = ''POST'',
         headers = [(''Accept'', ''application/json''), (''Content-Type'', ''application/json'')],
         body = Text (JSON_stringify (queryObj version key))\<rparr>
      else
        \<lparr>request_method = ''POST'',
         headers = [(''Accept'', ''application/json''),
                    (''Content-Type'', ''application/x-www-form-urlencoded'')],
         body = Text (''queries='' @ JSON_stringify (queryObj version key))\<rparr>)"

text \<open>
  The statement \<open>qInit.body.queries[0].lang = lang\<close>, on each kind of body. A string
  has no property \<open>queries\<close>, and neither has the object \<open>{q0: ...}\<close>: reading
  element 0 of \<open>undefined\<close> throws a \<open>TypeError\<close>. With an empty \<open>queries\<close>
  list, element 0 is \<open>undefined\<close> and the assignment to its property throws.
\<close>

fun assign_lang :: "body_value \<Rightarrow> string \<Rightarrow> js_error + body_value" where
  "assign_lang (Text s) l = Inl TypeError"
| "assign_lang (Object (Q0 e)) l = Inl TypeError"
| "assign_lang (Object (Queries [])) l = Inl TypeError"
| "assign_lang (Object (Queries (e # es))) l = Inr (Object (Queries (e\<lparr>lang := Some l\<rparr> # es)))"

text \<open>
  The first part of \<open>query\<close>, up to the call of \<open>fetch\<close>: the request it has built,
  or the error thrown while building it.
\<close>

definition query_request :: "ReconciliationService \<Rightarrow> string \<Rightarrow> js_error + RequestInit" where
  "query_request this key =
     (let qInit = qRequestInit (reconcVersion this) key;
          qInit' =
            (case acceptLang this of
               None \<Rightarrow> qInit
             | Some a \<Rightarrow>
                 if a \<noteq> [] \<and> reconcVersion this = Some ''0.3.0-alpha''
                 then qInit\<lparr>headers := assign (headers qInit) ''Accept-Language'' a\<rparr>
                 else qInit)
      in case processLang this of
           None \<Rightarrow> Inr qInit'
         | Some l \<Rightarrow>
             if l \<noteq> [] \<and> reconcVersion this = Some ''0.3.0-alpha''
             then (case assign_lang (body qInit') l of
                     Inl e \<Rightarrow> Inl e
                   | Inr b \<Rightarrow> Inr (qInit'\<lparr>body := b\<rparr>))
             else Inr qInit')"

subsection \<open>Parsing the response\<close>

text \<open>
  A response item as the parser reads it: \<open>id\<close> and \<open>name\<close>, and the optional
  \<open>description\<close>, \<open>type\<close> (a list of objects with a \<open>name\<close>) and \<open>score\<close>.
  The response itself is either an object whose properties each hold a \<open>result\<close>
  list (\<open>{q0: {result: [...]}}\<close>) or an array of objects that each hold one
  (\<open>[{result: [...]}]\<close>).
\<close>

record type_entry =
  type_name :: string

record item =
  item_id :: string
  item_name :: string
  item_description :: "string option"
  item_type :: "type_entry list option"
  item_score :: "rat option"

datatype response_json =
    ByQuery "(string \<times> item list) list"
  | Batch "item list list"

datatype result_type = Types "type_entry list" | TypeName string

record ResultRecord =
  result_register :: string
  result_id :: string
  label :: string
  result_type :: "result_type option"
  details :: string
  score :: "rat option"
  link :: string
  provider :: string

record QueryResult =
  totalItems :: int
  items :: "ResultRecord list"

text \<open>
  The two values \<open>_parseResponse\<close> computes for every item in both of its branches.
  The fields \<open>this.view\<close> and \<open>this.description\<close> that hold them are assigned
  anew for every item before they are read, so they are values of the item here.
\<close>

definition view_of :: "ReconciliationService \<Rightarrow> item \<Rightarrow> js_error + string" where
  "view_of this it =
     (case ReconcConfig this of
        None \<Rightarrow> Inl TypeError
      | Some config \<Rightarrow>
          (case view config of
             Some t \<Rightarrow> Inr (replace (url t) ''{{id}}'' (item_id it))
           | None \<Rightarrow> Inr (item_id it)))"

definition description_of :: "item \<Rightarrow> string" where
  "description_of it =
     (if truthy (item_description it) then the (item_description it)
      else (case item_type it of
              Some ts \<Rightarrow> join (map type_name ts) '', ''
            | None \<Rightarrow> []))"

definition prefixed :: "ReconciliationService \<Rightarrow> string \<Rightarrow> string" where
  "prefixed this raw =
     (if truthy (prefix this) then the (prefix this) @ ''-'' @ raw else raw)"

text \<open>
  The body of the loop in the branch for \<open>0.3.0-alpha\<close>: the record's \<open>type\<close> is
  \<open>item.type[0].name\<close>, which throws when the item has no type list or an empty one.
\<close>

definition parse_item_alpha :: "ReconciliationService \<Rightarrow> item \<Rightarrow> js_error + ResultRecord" where
  "parse_item_alpha this it =
     (case view_of this it of
        Inl e \<Rightarrow> Inl e
      | Inr v \<Rightarrow>
          (case item_type it of
             None \<Rightarrow> Inl TypeError
           | Some [] \<Rightarrow> Inl TypeError
           | Some (t # ts) \<Rightarrow>
               Inr \<lparr>result_register = register this,
                    result_id = prefixed this (item_id it),
                    label = item_name it,
                    result_type = Some (TypeName (type_name t)),
                    details = description_of it,
                    score = item_score it,
                    link = v,
                    provider = ''Reconciliation''\<rparr>))"

text \<open>The body of the loop in the default branch: the type list is copied as it is.\<close>

definition parse_item_default :: "ReconciliationService \<Rightarrow> item \<Rightarrow> js_error + ResultRecord" where
  "parse_item_default this it =
     (case view_of this it of
        Inl e \<Rightarrow> Inl e
      | Inr v \<Rightarrow>
          Inr \<lparr>result_register = register this,
               result_id = prefixed this (item_id it),
               label = item_name it,
               result_type = map_option Types (item_type it),
               details = description_of it,
               score = None,
               link = v,
               provider = ''Reconciliation''\<rparr>)"

text \<open>\<open>list.forEach(item => { ...; results.push(result) })\<close>: an exception in the
  body ends the loop.\<close>

fun forEach_push :: "('a \<Rightarrow> js_error + 'b) \<Rightarrow> 'a list \<Rightarrow> 'b list \<Rightarrow> js_error + 'b list" where
  "forEach_push f [] results = Inr results"
| "forEach_push f (x # xs) results =
     (case f x of
        Inl e \<Rightarrow> Inl e
      | Inr r \<Rightarrow> forEach_push f xs (results @ [r]))"

text \<open>
  \<open>obj[0].result\<close> and \<open>obj.q0.result\<close>: the property of the response, then its
  result list; a missing property is \<open>undefined\<close>, whose \<open>result\<close> cannot be read.
\<close>

fun result_at_0 :: "response_json \<Rightarrow> js_error + item list" where
  "result_at_0 (Batch []) = Inl TypeError"
| "result_at_0 (Batch (r # rs)) = Inr r"
| "result_at_0 (ByQuery kvs) = (case map_of kvs ''0'' of None \<Rightarrow> Inl TypeError | Some r \<Rightarrow> Inr r)"

fun result_at_q0 :: "response_json \<Rightarrow> js_error + item list" where
  "result_at_q0 (Batch rs) = Inl TypeError"
| "result_at_q0 (ByQuery kvs) = (case map_of kvs ''q0'' of None \<Rightarrow> Inl TypeError | Some r \<Rightarrow> Inr r)"

definition parseResponse :: "ReconciliationService \<Rightarrow> string option \<Rightarrow> response_json \<Rightarrow> js_error + QueryResult" where
  "parseResponse this version obj =
     (if version = Some ''0.3.0-alpha'' then
        (case result_at_0 obj of
           Inl e \<Rightarrow> Inl e
         | Inr res \<Rightarrow>
             (case forEach_push (parse_item_alpha this) res [] of
                Inl e \<Rightarrow> Inl e
              | Inr results \<Rightarrow> Inr \<lparr>totalItems = int (length res), items = results\<rparr>))
      else
        (case result_at_q0 obj of
           Inl e \<Rightarrow> Inl e
         | Inr res \<Rightarrow>
             (case forEach_push (parse_item_default this) res [] of
                Inl e \<Rightarrow> Inl e
              | Inr results \<Rightarrow> Inr \<lparr>totalItems = int (length res), items = results\<rparr>)))"

subsection \<open>The connector's methods\<close>

text \<open>
  The network is a parameter of every method. For \<open>query\<close> it is \<open>fetch_json\<close>:
  the state in which \<open>fetch(endpoint, qInit).then(response => response.json())\<close>
  ends for a given endpoint and request. \<open>query\<close> is an \<open>async\<close> function, so an
  error thrown while the request is built, or while the response is parsed, rejects its
  promise.
\<close>

definition ReconciliationService_query ::
  "ReconciliationService \<Rightarrow> (string \<Rightarrow> RequestInit \<Rightarrow> response_json promise) \<Rightarrow> string \<Rightarrow> QueryResult promise" where
  "ReconciliationService_query this fetch_json key =
     (case query_request this key of
        Inl e \<Rightarrow> Rejected e
      | Inr qInit \<Rightarrow>
          (case fetch_json (endpoint this) qInit of
             Pending \<Rightarrow> Pending
           | Rejected e \<Rightarrow> Rejected e
           | Resolved json \<Rightarrow>
               (case parseResponse this (reconcVersion this) json of
                  Inl e \<Rightarrow> Rejected e
                | Inr r \<Rightarrow> Resolved r)))"

text \<open>
  \<open>info\<close> writes into the container it is given; the container is its
  \<open>innerHTML\<close>, passed in and returned. The value the promise resolves with is a
  descriptor object, or \<open>None\<close> for \<open>undefined\<close>; the object \<open>{}\<close> has no
  field set. \<open>info\<close> is not an \<open>async\<close> function: reading \<open>preview\<close> of a
  manifest that has not arrived throws to the caller (\<open>Inl\<close>). \<open>fetch_text\<close> is the
  state in which \<open>fetch(url).then(response => response.text())\<close> ends.
\<close>

record descriptor =
  descriptor_id :: "string option"
  strings :: "string list option"
  editable :: "bool option"

definition empty_object :: descriptor where
  "empty_object = \<lparr>descriptor_id = None, strings = None, editable = None\<rparr>"

definition no_preview_message :: string where
  "no_preview_message = ''no 'preview' endpoint in reconciliation service's manifest''"

definition raw_id :: "ReconciliationService \<Rightarrow> string \<Rightarrow> string" where
  "raw_id this key =
     (if truthy (prefix this) then substring key (length (the (prefix this)) + 1) else key)"

definition ReconciliationService_info ::
  "ReconciliationService \<Rightarrow> (string \<Rightarrow> string promise) \<Rightarrow> string \<Rightarrow> string \<Rightarrow>
     js_error + (descriptor option promise \<times> string)" where
  "ReconciliationService_info this fetch_text ident container =
     (if ident = [] then Inr (Resolved (Some empty_object), container)
      else
        (case ReconcConfig this of
           None \<Rightarrow> Inl TypeError
         | Some config \<Rightarrow>
             (case preview config of
                None \<Rightarrow> Inr (Resolved None, no_preview_message)
              | Some t \<Rightarrow>
                  (let rawid = raw_id this ident;
                       u = replace (url t) ''{{id}}'' (encodeURIComponent rawid)
                   in case fetch_text u of
                        Pending \<Rightarrow> Inr (Pending, container)
                      | Rejected e \<Rightarrow> Inr (Rejected NoReason, container)
                      | Resolved output \<Rightarrow>
                          Inr (Resolved (Some (empty_object
                                 \<lparr>descriptor_id := Some (prefixed this rawid)\<rparr>)),
                               output)))))"

text \<open>
  \<open>getRecord\<close> as the file with the \<open>es-semver\<close> import has it: it strips the
  prefix, runs \<open>query\<close> and returns \<open>result.items[0]\<close>, which is \<open>undefined\<close>
  (\<open>None\<close>) for an empty list.
\<close>

definition ReconciliationService_getRecord ::
  "ReconciliationService \<Rightarrow> (string \<Rightarrow> RequestInit \<Rightarrow> response_json promise) \<Rightarrow> string \<Rightarrow>
     ResultRecord option promise" where
  "ReconciliationService_getRecord this fetch_json key =
     (case ReconciliationService_query this fetch_json (raw_id this key) of
        Pending \<Rightarrow> Pending
      | Rejected e \<Rightarrow> Rejected e
      | Resolved r \<Rightarrow>
          Resolved (case items r of [] \<Rightarrow> None | x # xs \<Rightarrow> Some x))"

subsection \<open>The other variant of \<open>getRecord\<close>\<close>

text \<open>
  The second file of the connector (the one that imports \<open>semver\<close>) has a different
  \<open>getRecord\<close>: it runs no query; it rejects when the manifest has no \<open>view\<close>,
  and otherwise fetches \<open>viewUrl.json\<close> and returns the JSON record it gets, with
  \<open>name\<close> set to the record's \<open>prefLabel\<close> and \<open>link\<close> to the view URL. Every
  failure on the way is turned into a rejection without a reason. A JSON record is the
  list of its properties, \<open>None\<close> for the value \<open>undefined\<close>; a response has a
  status and the state in which reading its body ends.
\<close>

record 'a Response =
  status :: nat
  content :: "'a promise"

definition ok :: "'a Response \<Rightarrow> bool" where
  "ok response = (200 \<le> status response \<and> status response \<le> 299)"

definition property :: "(string \<times> 'a option) list \<Rightarrow> string \<Rightarrow> 'a option" where
  "property obj k = (case map_of obj k of None \<Rightarrow> None | Some v \<Rightarrow> v)"

definition getRecord_from_view ::
  "ReconciliationService \<Rightarrow> (string \<Rightarrow> (string \<times> string option) list Response promise) \<Rightarrow> string \<Rightarrow>
     (string \<times> string option) list promise" where
  "getRecord_from_view this fetch key =
     (case ReconcConfig this of
        None \<Rightarrow> Rejected TypeError
      | Some config \<Rightarrow>
          (case view config of
             None \<Rightarrow> Rejected NoReason
           | Some t \<Rightarrow>
               (let viewUrl = replace (url t) ''{{id}}'' (raw_id this key)
                in case fetch (viewUrl @ ''.json'') of
                     Pending \<Rightarrow> Pending
                   | Rejected e \<Rightarrow> Rejected NoReason
                   | Resolved response \<Rightarrow>
                       if ok response then
                         (case content response of
                            Pending \<Rightarrow> Pending
                          | Rejected e \<Rightarrow> Rejected NoReason
                          | Resolved json \<Rightarrow>
                              Resolved (assign (assign json ''name'' (property json ''prefLabel''))
                                          ''link'' (Some viewUrl)))
                       else Rejected NoReason)))"

section \<open>The custom connector\<close>

text \<open>
  The custom connector holds the endpoint of the local register and a list of child
  connectors. It calls three methods of a child, whatever the child's class:
  \<open>query(key)\<close>, \<open>info(key, container)\<close> and \<open>getRecord(id)\<close>. A child is
  the record of these three, each giving the state in which the call's promise ends;
  \<open>info\<close> also returns what it left in the container. The call of a child's
  \<open>info\<close> stands in a \<open>try\<close> block whose handler takes an exception thrown by
  the call as it takes a rejection, so such an exception is a rejection here;
  \<open>query\<close> and \<open>getRecord\<close> of the connectors are \<open>async\<close> functions,
  which reject and never throw to their caller.
  A record returned by \<open>getRecord\<close> is any JavaScript object (\<open>'r\<close>);
  \<open>None\<close> stands for a value that fails the test \<open>if (entry)\<close>.
\<close>

record 'r connector =
  connector_query :: "string \<Rightarrow> QueryResult promise"
  connector_info :: "string \<Rightarrow> string \<Rightarrow> descriptor option promise \<times> string"
  connector_getRecord :: "string \<Rightarrow> 'r option promise"

record 'r Custom =
  custom_endpoint :: string
  custom_register :: string
  custom_editable :: bool
  custom_connectors :: "'r connector list"

subsection \<open>\<open>query\<close>\<close>

text \<open>
  \<open>search_url\<close> and \<open>entry_url\<close> are the two addresses of the local register the
  connector builds: \<open>endpoint/api/register/search/register?query=key\<close> and
  \<open>endpoint/api/register/register/id\<close>, key and id percent-encoded.
  The local register answers a search with a JSON array of objects with the fields
  \<open>id\<close>, \<open>label\<close>, \<open>link\<close> and \<open>details\<close>. \<open>fetch_json\<close> is the state in
  which \<open>fetch(url).then(response => response.json())\<close> ends. The promise that
  \<open>query\<close> returns is resolved at the end of the second \<open>then\<close> callback and is
  never rejected: when the fetch fails, or when the callback throws, it stays pending.
\<close>

record local_item =
  local_id :: string
  local_label :: string
  local_link :: string
  local_details :: string

definition local_result :: "'r Custom \<Rightarrow> local_item \<Rightarrow> ResultRecord" where
  "local_result this it =
     \<lparr>result_register = custom_register this,
      result_id = local_id it,
      label = local_label it,
      result_type = None,
      details = local_details it,
      score = None,
      link = local_link it,
      provider = ''local''\<rparr>"

fun local_forEach ::
  "'r Custom \<Rightarrow> local_item list \<Rightarrow> ResultRecord list \<Rightarrow> string set \<Rightarrow> ResultRecord list \<times> string set" where
  "local_forEach this [] results localResults = (results, localResults)"
| "local_forEach this (it # its) results localResults =
     local_forEach this its (results @ [local_result this it]) (insert (local_id it) localResults)"

fun query_connectors ::
  "'r connector list \<Rightarrow> string \<Rightarrow> string set \<Rightarrow> ResultRecord list \<Rightarrow> int \<Rightarrow> QueryResult promise" where
  "query_connectors [] key localResults results count =
     Resolved \<lparr>totalItems = count, items = results\<rparr>"
| "query_connectors (c # cs) key localResults results count =
     (case connector_query c key of
        Pending \<Rightarrow> Pending
      | Rejected e \<Rightarrow> Pending
      | Resolved dr \<Rightarrow>
          query_connectors cs key localResults
            (results @ filter (\<lambda>result. result_id result \<notin> localResults) (items dr))
            (count + totalItems dr))"

definition search_url :: "'r Custom \<Rightarrow> string \<Rightarrow> string" where
  "search_url this key =
     custom_endpoint this @ ''/api/register/search/'' @ custom_register this @
     ''?query='' @ encodeURIComponent key"

definition entry_url :: "'r Custom \<Rightarrow> string \<Rightarrow> string" where
  "entry_url this ident =
     custom_endpoint this @ ''/api/register/'' @ custom_register this @ ''/'' @
     encodeURIComponent ident"

definition Custom_query ::
  "'r Custom \<Rightarrow> (string \<Rightarrow> local_item list promise) \<Rightarrow> string \<Rightarrow> QueryResult promise" where
  "Custom_query this fetch_json key =
     (case fetch_json (search_url this key) of
        Pending \<Rightarrow> Pending
      | Rejected e \<Rightarrow> Pending
      | Resolved json \<Rightarrow>
          (case local_forEach this json [] {} of
             (results, localResults) \<Rightarrow>
               query_connectors (custom_connectors this) key localResults results
                 (int (length json))))"

subsection \<open>\<open>info\<close>\<close>

text \<open>
  The local register answers the lookup of one entry with a JSON object with the fields
  \<open>id\<close>, \<open>strings\<close> and \<open>details\<close>. The loop over the children runs inside the
  executor of the returned promise: it carries the promise's state, the container, and
  (for the statements below) the number of children whose \<open>info\<close> it has called. It
  reports whether it came to its end: a child whose promise never settles stops it.
\<close>

record local_entry =
  entry_id :: string
  entry_strings :: "string list"
  entry_details :: string

fun info_connectors ::
  "'r connector list \<Rightarrow> string \<Rightarrow> descriptor option promise \<Rightarrow> string \<Rightarrow> nat \<Rightarrow>
     descriptor option promise \<times> string \<times> nat \<times> bool" where
  "info_connectors [] key p container n = (p, container, n, True)"
| "info_connectors (c # cs) key p container n =
     (case connector_info c key container of
        (Pending, container') \<Rightarrow> (p, container', Suc n, False)
      | (Rejected e, container') \<Rightarrow> info_connectors cs key p container' (Suc n)
      | (Resolved cr, container') \<Rightarrow>
          info_connectors cs key
            (case cr of None \<Rightarrow> p | Some d \<Rightarrow> settle p (Resolved cr)) container' (Suc n))"

definition Custom_info ::
  "'r Custom \<Rightarrow> (string \<Rightarrow> local_entry Response promise) \<Rightarrow> string \<Rightarrow> string \<Rightarrow>
     descriptor option promise \<times> string \<times> nat" where
  "Custom_info this fetch key container =
     (if key = [] then (Resolved (Some empty_object), container, 0)
      else
        (case fetch (entry_url this key) of
           Pending \<Rightarrow> (Pending, container, 0)
         | Rejected e \<Rightarrow> (Pending, container, 0)
         | Resolved response \<Rightarrow>
             if ok response then
               (case content response of
                  Pending \<Rightarrow> (Pending, container, 0)
                | Rejected e \<Rightarrow> (Pending, container, 0)
                | Resolved json \<Rightarrow>
                    (Resolved (Some \<lparr>descriptor_id = Some (entry_id json),
                                     strings = Some (entry_strings json),
                                     editable = Some (custom_editable this)\<rparr>),
                     entry_details json, 0))
             else if status response = 404 then
               (case info_connectors (custom_connectors this) key Pending container 0 of
                  (p, container', n, completed) \<Rightarrow>
                    (if completed then settle p (Rejected NoReason) else p, container', n))
             else (Rejected NoReason, container, 0)))"

subsection \<open>\<open>select\<close>\<close>





section \<open>Concrete connectors and inputs\<close>

text \<open>
  A connector as its constructor leaves it, before the manifest has arrived, and the
  manifests and responses the concrete runs below use.
\<close>

definition constructed :: ReconciliationService where
  "constructed =
     \<lparr>register = ''people'', prefix = None, endpoint = ''https://example.org/reconcile'',
      processLang = None, acceptLang = None, ReconcConfig = None, reconcVersion = None\<rparr>"

definition unversioned_manifest :: manifest where
  "unversioned_manifest = \<lparr>versions = None, preview = None, view = None\<rparr>"

definition empty_versions_manifest :: manifest where
  "empty_versions_manifest = \<lparr>versions = Some [], preview = None, view = None\<rparr>"

definition alpha_manifest :: manifest where
  "alpha_manifest = \<lparr>versions = Some [''0.1'', ''0.3-alpha''], preview = None, view = None\<rparr>"

definition legacy_connector :: ReconciliationService where
  "legacy_connector = receiveManifest plain_semver unversioned_manifest constructed"

definition alpha_connector :: ReconciliationService where
  "alpha_connector =
     receiveManifest plain_semver alpha_manifest (constructed\<lparr>processLang := Some ''en''\<rparr>)"

definition person :: item where
  "person =
     \<lparr>item_id = ''a'', item_name = ''X'', item_description = None,
      item_type = Some [\<lparr>type_name = ''Person''\<rparr>], item_score = None\<rparr>"

definition described_only :: item where
  "described_only =
     \<lparr>item_id = ''b'', item_name = ''Y'', item_description = Some ''a person'',
      item_type = None, item_score = None\<rparr>"

definition alpha_plain_connector :: ReconciliationService where
  "alpha_plain_connector = receiveManifest plain_semver alpha_manifest constructed"

definition answers :: "response_json \<Rightarrow> string \<Rightarrow> RequestInit \<Rightarrow> response_json promise" where
  "answers json address init = Resolved json"

text \<open>
  Children of a custom connector that give the same answer to every call: what
  \<open>query\<close> ends with, what \<open>info\<close> ends with and leaves in the container, and
  what \<open>getRecord\<close> ends with.
\<close>

definition child ::
  "QueryResult promise \<Rightarrow> descriptor option promise \<times> string \<Rightarrow> 'r option promise \<Rightarrow> 'r connector" where
  "child q i g =
     \<lparr>connector_query = (\<lambda>key. q),
      connector_info = (\<lambda>key container. i),
      connector_getRecord = (\<lambda>ident. g)\<rparr>"

definition local_register :: "'r connector list \<Rightarrow> 'r Custom" where
  "local_register cs =
     \<lparr>custom_endpoint = ''https://example.org'', custom_register = ''people'',
      custom_editable = True, custom_connectors = cs\<rparr>"

definition remote_record :: "string \<Rightarrow> ResultRecord" where
  "remote_record ident =
     \<lparr>result_register = ''people'', result_id = ident, label = ''remote'',
      result_type = None, details = [], score = None, link = ident,
      provider = ''Reconciliation''\<rparr>"

definition local_one :: local_item where
  "local_one = \<lparr>local_id = ''1'', local_label = ''one'', local_link = ''/1'', local_details = []\<rparr>"

definition finds :: "'a \<Rightarrow> string \<Rightarrow> 'a promise" where
  "finds json address = Resolved json"


definition described :: "string \<Rightarrow> descriptor" where
  "described ident = \<lparr>descriptor_id = Some ident, strings = None, editable = None\<rparr>"

section \<open>Reference runs for the loops over the children\<close>

text \<open>
  The statements about the custom connector compare its loops with two plain
  descriptions. \<open>info_all\<close> calls \<open>info\<close> of every child in order, each with the
  container as the one before left it, and returns every promise's state and the final
  container; \<open>first_descriptor\<close> is the first value among them that a promise resolved
  with and that passes the test \<open>if (cr)\<close>. \<open>yields_nothing\<close> says that a child's
  \<open>getRecord\<close> rejects or resolves with a value that fails the test \<open>if (entry)\<close>.
\<close>

fun info_all :: "'r connector list \<Rightarrow> string \<Rightarrow> string \<Rightarrow> descriptor option promise list \<times> string" where
  "info_all [] key container = ([], container)"
| "info_all (c # cs) key container =
     (case connector_info c key container of
        (p, container') \<Rightarrow>
          (case info_all cs key container' of
             (ps, final) \<Rightarrow> (p # ps, final)))"

fun first_descriptor :: "descriptor option promise list \<Rightarrow> descriptor option" where
  "first_descriptor [] = None"
| "first_descriptor (Resolved (Some d) # ps) = Some d"
| "first_descriptor (p # ps) = first_descriptor ps"


section \<open>Version negotiation\<close>

text \<open>
  Claim C6. The function the constructor maps over the advertised versions is
  idempotent: applying it twice gives what applying it once gives, for every string
  and whatever the package judges to be a version. (When it changes a string, the result
  is a version by the very test that allowed the change, and a version is kept.)
\<close>

theorem normalizeVersion_idempotent:
  "normalizeVersion lib (normalizeVersion lib v) = normalizeVersion lib v"
proof (cases "normalizeVersion lib v = v")
  case True
  then show ?thesis by simp
next
  case False
  then have "valid lib (normalizeVersion lib v)"
    by (auto simp: normalizeVersion_def split: if_splits)
  then show ?thesis
    by (simp add: normalizeVersion_def [of lib "normalizeVersion lib v"])
qed

text \<open>The two-component pre-release \<open>0.3-alpha\<close> becomes \<open>0.3.0-alpha\<close>, and stays
  so.\<close>

theorem normalizeVersion_idempotent_witness:
  "normalizeVersion plain_semver ''0.3-alpha'' = ''0.3.0-alpha'' \<and>
   normalizeVersion plain_semver (normalizeVersion plain_semver ''0.3-alpha'') = ''0.3.0-alpha''"
proof -
  have one: "normalizeVersion plain_semver ''0.3-alpha'' = ''0.3.0-alpha''"
    by code_simp
  from normalizeVersion_idempotent [of plain_semver "''0.3-alpha''"] one
  show ?thesis by simp
qed

lemma normalizeVersion_map_idempotent:
  "map (normalizeVersion lib) (map (normalizeVersion lib) vs) = map (normalizeVersion lib) vs"
  by (induction vs) (simp_all add: normalizeVersion_def)

lemma maxSatisfying_Nil: "maxSatisfying lib [] rng = None"
  by (simp add: maxSatisfying_def)

lemma maxSatisfying_loop_member:
  "maxSatisfying_loop lib rng mx vs = Some v \<Longrightarrow> mx = Some v \<or> v \<in> set vs"
  by (induction vs arbitrary: mx) (auto split: if_splits option.splits)

lemma maxSatisfying_member: "maxSatisfying lib vs rng = Some v \<Longrightarrow> v \<in> set vs"
  using maxSatisfying_loop_member [of lib rng None vs v] by (simp add: maxSatisfying_def)

text \<open>
  The manifest \<open>{versions: []}\<close>: the empty list passes the test
  \<open>if (versions)\<close>, so the default \<open>0.1.0\<close> is not taken; \<open>maxSatisfying\<close>
  finds nothing in the list and the connector's version is \<open>null\<close>.
\<close>

theorem negotiation_empty_versions_counterexample:
  "reconcVersion (receiveManifest plain_semver empty_versions_manifest constructed) = None \<and>
   reconcVersion (receiveManifest plain_semver empty_versions_manifest constructed) \<noteq> Some ''0.1.0''"
  by (simp add: receiveManifest_def empty_versions_manifest_def maxSatisfying_def)

text \<open>
  Claim C4, as the code has it. A manifest without a \<open>versions\<close> field gives the
  version \<open>0.1.0\<close>. A manifest whose \<open>versions\<close> field is the empty list gives no
  version at all (\<open>null\<close>); the request builder and the response parser compare the
  version with \<open>0.3.0-alpha\<close> only, so with no version they do what they do with
  \<open>0.1.0\<close>.
\<close>

theorem negotiation_without_versions:
  "(versions m = None \<longrightarrow> reconcVersion (receiveManifest lib m this) = Some ''0.1.0'') \<and>
   (versions m = Some [] \<longrightarrow> reconcVersion (receiveManifest lib m this) = None) \<and>
   qRequestInit None key = qRequestInit (Some ''0.1.0'') key \<and>
   parseResponse this' None obj = parseResponse this' (Some ''0.1.0'') obj"
  by (simp add: receiveManifest_def maxSatisfying_def parseResponse_def)

theorem negotiation_without_versions_witness:
  "reconcVersion (receiveManifest plain_semver unversioned_manifest constructed) = Some ''0.1.0'' \<and>
   reconcVersion (receiveManifest plain_semver empty_versions_manifest constructed) = None"
proof -
  have a: "versions unversioned_manifest = None" by (simp add: unversioned_manifest_def)
  have b: "versions empty_versions_manifest = Some []" by (simp add: empty_versions_manifest_def)
  from negotiation_without_versions [of unversioned_manifest plain_semver constructed] a
  have one: "reconcVersion (receiveManifest plain_semver unversioned_manifest constructed) = Some ''0.1.0''"
    by blast
  from negotiation_without_versions [of empty_versions_manifest plain_semver constructed] b
  have two: "reconcVersion (receiveManifest plain_semver empty_versions_manifest constructed) = None"
    by blast
  from one two show ?thesis by simp
qed

text \<open>The advertised versions \<open>0.3\<close>, \<open>0.2-alpha\<close> and \<open>0.1\<close>: the connector
  works with \<open>0.3.0\<close>.\<close>

lemma negotiation_of_mixed_versions:
  "reconcVersion
     (receiveManifest plain_semver
        \<lparr>versions = Some [''0.3'', ''0.2-alpha'', ''0.1''], preview = None, view = None\<rparr>
        constructed) = Some ''0.3.0''"
  by code_simp

text \<open>Of two tags of the same version the greater one is chosen, wherever it stands in
  the list.\<close>

lemma negotiation_of_two_tags:
  "maxSatisfying plain_semver [''0.3.0-beta'', ''0.3.0-alpha''] ''<0.3.1'' = Some ''0.3.0-beta'' \<and>
   maxSatisfying plain_semver [''0.3.0-alpha'', ''0.3.0-beta''] ''<0.3.1'' = Some ''0.3.0-beta''"
  by code_simp

text \<open>A version the constructor chooses from a list is one of the normalised entries.\<close>

lemma negotiation_chooses_advertised:
  "versions m = Some vs \<Longrightarrow> reconcVersion (receiveManifest lib m this) = Some v \<Longrightarrow>
     v \<in> normalizeVersion lib ` set vs"
  by (auto simp: receiveManifest_def dest: maxSatisfying_member)

section \<open>The request of \<open>query\<close>\<close>

text \<open>
  With the version \<open>0.3.0-alpha\<close> and no process-language hint, the request is a POST
  with the JSON text of \<open>{queries: [{query: key}]}\<close> as its body and the content type
  \<open>application/json\<close>; the \<open>Accept-Language\<close> header is the accept-language hint
  when there is one. With any other version the request is the form-encoded one,
  whatever the hints are.
\<close>

lemma query_request_alpha_plain:
  assumes "reconcVersion this = Some ''0.3.0-alpha''" and "\<not> truthy (processLang this)"
  shows "query_request this key =
           Inr \<lparr>request_method = ''POST'',
                headers =
                  [(''Accept'', ''application/json''), (''Content-Type'', ''application/json'')] @
                  (if truthy (acceptLang this) then [(''Accept-Language'', the (acceptLang this))]
                   else []),
                body = Text (JSON_stringify (Queries [\<lparr>query = key, lang = None\<rparr>]))\<rparr>"
  using assms by (auto simp: query_request_def Let_def truthy_def split: option.splits)

lemma query_request_default:
  assumes "reconcVersion this \<noteq> Some ''0.3.0-alpha''"
  shows "query_request this key =
           Inr \<lparr>request_method = ''POST'',
                headers = [(''Accept'', ''application/json''),
                           (''Content-Type'', ''application/x-www-form-urlencoded'')],
                body = Text (''queries='' @ JSON_stringify (Q0 \<lparr>query = key, lang = None\<rparr>))\<rparr>"
  using assms by (auto simp: query_request_def Let_def split: option.splits)

text \<open>
  With the version \<open>0.3.0-alpha\<close> and a process-language hint, the assignment of
  the \<open>lang\<close> field throws, because the body is the JSON text and not the object:
  no request is built and \<open>query\<close> rejects. On the object itself the assignment
  would have set the field.
\<close>

lemma query_request_alpha_processLang:
  assumes "reconcVersion this = Some ''0.3.0-alpha''" and "processLang this = Some l" and "l \<noteq> []"
  shows "query_request this key = Inl TypeError"
  using assms by (simp add: query_request_def Let_def split: option.splits)

lemma query_alpha_processLang:
  assumes "reconcVersion this = Some ''0.3.0-alpha''" and "processLang this = Some l" and "l \<noteq> []"
  shows "ReconciliationService_query this fetch_json key = Rejected TypeError"
  using query_request_alpha_processLang [OF assms] by (simp add: ReconciliationService_query_def)

lemma assign_lang_object:
  "assign_lang (Object (queryObj (Some ''0.3.0-alpha'') key)) l =
     Inr (Object (Queries [\<lparr>query = key, lang = Some l\<rparr>]))"
  by simp

text \<open>
  Claim C7, at the input where the code departs from it: a connector whose manifest
  advertises \<open>0.3-alpha\<close> (negotiated to \<open>0.3.0-alpha\<close>) and whose process-language
  hint is \<open>en\<close>. The claim has the request carry \<open>lang: en\<close> in its first query
  entry; the code throws a \<open>TypeError\<close> before any request is sent, and the promise of
  \<open>query\<close> is rejected.
\<close>

theorem query_processLang_TypeError:
  "reconcVersion alpha_connector = Some ''0.3.0-alpha'' \<and>
   processLang alpha_connector = Some ''en'' \<and>
   query_request alpha_connector ''x'' = Inl TypeError \<and>
   ReconciliationService_query alpha_connector (answers (Batch [[person]])) ''x'' = Rejected TypeError"
  by code_simp

section \<open>The parsed response\<close>

lemma forEach_push_all:
  "\<forall>x \<in> set xs. f x = Inr (g x) \<Longrightarrow> forEach_push f xs acc = Inr (acc @ map g xs)"
  by (induction xs arbitrary: acc) simp_all

lemma forEach_push_throws:
  "\<exists>x \<in> set xs. f x = Inl e \<Longrightarrow> \<forall>x \<in> set xs. \<forall>e'. f x = Inl e' \<longrightarrow> e' = e \<Longrightarrow>
     forEach_push f xs acc = Inl e"
proof (induction xs arbitrary: acc)
  case Nil
  then show ?case by simp
next
  case (Cons x xs)
  show ?case
  proof (cases "f x")
    case (Inl e')
    with Cons.prems(2) show ?thesis by simp
  next
    case (Inr r)
    with Cons.prems have "\<exists>x \<in> set xs. f x = Inl e"
      and "\<forall>x \<in> set xs. \<forall>e'. f x = Inl e' \<longrightarrow> e' = e"
      by auto
    from Cons.IH [OF this] Inr show ?thesis by simp
  qed
qed

text \<open>
  The default branch always produces its result. On a connector whose manifest has
  arrived, for every response with a result list under \<open>q0\<close>, the parser returns
  one record per item, in order, and \<open>totalItems\<close> is their number. The details of
  an item's record are the item's description when it has one (a non-empty string: the
  parser tests it with \<open>if (item.description)\<close>), otherwise the names of its types
  joined with a comma and a space when it has a type list, otherwise the empty string.
\<close>

lemma parseResponse_default_total:
  assumes "ReconcConfig this = Some config"
    and "version \<noteq> Some ''0.3.0-alpha''"
    and "result_at_q0 obj = Inr its"
  shows "parseResponse this version obj =
           Inr \<lparr>totalItems = int (length its),
                items = map (\<lambda>it.
                   \<lparr>result_register = register this,
                    result_id = prefixed this (item_id it),
                    label = item_name it,
                    result_type = map_option Types (item_type it),
                    details =
                      (case item_description it of
                         Some (c # cs) \<Rightarrow> c # cs
                       | _ \<Rightarrow>
                           (case item_type it of
                              Some ts \<Rightarrow> join (map type_name ts) '', ''
                            | None \<Rightarrow> [])),
                    score = None,
                    link = (case view config of
                              Some t \<Rightarrow> replace (url t) ''{{id}}'' (item_id it)
                            | None \<Rightarrow> item_id it),
                    provider = ''Reconciliation''\<rparr>) its\<rparr>"
proof -
  let ?g = "\<lambda>it.
                   \<lparr>result_register = register this,
                    result_id = prefixed this (item_id it),
                    label = item_name it,
                    result_type = map_option Types (item_type it),
                    details =
                      (case item_description it of
                         Some (c # cs) \<Rightarrow> c # cs
                       | _ \<Rightarrow>
                           (case item_type it of
                              Some ts \<Rightarrow> join (map type_name ts) '', ''
                            | None \<Rightarrow> [])),
                    score = None,
                    link = (case view config of
                              Some t \<Rightarrow> replace (url t) ''{{id}}'' (item_id it)
                            | None \<Rightarrow> item_id it),
                    provider = ''Reconciliation''\<rparr>"
  have "parse_item_default this it = Inr (?g it)" for it
    using assms(1)
    by (simp add: parse_item_default_def view_of_def description_of_def truthy_def
             split: option.splits list.splits)
  then have "forEach_push (parse_item_default this) its [] = Inr ([] @ map ?g its)"
    by (intro forEach_push_all) simp
  with assms(2,3) show ?thesis by (simp add: parseResponse_def)
qed

text \<open>
  The branch for \<open>0.3.0-alpha\<close> produces its result when every item of the
  response's first result list has a type list with at least one type; the details of
  the records follow the same rule.
\<close>

lemma parseResponse_alpha_total:
  assumes "ReconcConfig this = Some config"
    and "version = Some ''0.3.0-alpha''"
    and "result_at_0 obj = Inr its"
    and "\<forall>it \<in> set its. \<exists>t ts. item_type it = Some (t # ts)"
  shows "parseResponse this version obj =
           Inr \<lparr>totalItems = int (length its),
                items = map (\<lambda>it.
                   \<lparr>result_register = register this,
                    result_id = prefixed this (item_id it),
                    label = item_name it,
                    result_type = Some (TypeName (type_name (hd (the (item_type it))))),
                    details =
                      (case item_description it of
                         Some (c # cs) \<Rightarrow> c # cs
                       | _ \<Rightarrow> join (map type_name (the (item_type it))) '', ''),
                    score = item_score it,
                    link = (case view config of
                              Some t \<Rightarrow> replace (url t) ''{{id}}'' (item_id it)
                            | None \<Rightarrow> item_id it),
                    provider = ''Reconciliation''\<rparr>) its\<rparr>"
proof -
  let ?g = "\<lambda>it.
                   \<lparr>result_register = register this,
                    result_id = prefixed this (item_id it),
                    label = item_name it,
                    result_type = Some (TypeName (type_name (hd (the (item_type it))))),
                    details =
                      (case item_description it of
                         Some (c # cs) \<Rightarrow> c # cs
                       | _ \<Rightarrow> join (map type_name (the (item_type it))) '', ''),
                    score = item_score it,
                    link = (case view config of
                              Some t \<Rightarrow> replace (url t) ''{{id}}'' (item_id it)
                            | None \<Rightarrow> item_id it),
                    provider = ''Reconciliation''\<rparr>"
  have "parse_item_alpha this it = Inr (?g it)" if "\<exists>t ts. item_type it = Some (t # ts)" for it
    using assms(1) that
    by (auto simp: parse_item_alpha_def view_of_def description_of_def truthy_def
             split: option.splits list.splits)
  with assms(4) have "forEach_push (parse_item_alpha this) its [] = Inr ([] @ map ?g its)"
    by (intro forEach_push_all) simp
  with assms(2,3) show ?thesis by (simp add: parseResponse_def)
qed

text \<open>
  In the branch for \<open>0.3.0-alpha\<close> one item without a type list, or with an empty
  one, is enough for the parser to produce nothing: the record's \<open>type\<close> is read as
  \<open>item.type[0].name\<close> without a test, and the \<open>TypeError\<close> ends the parse. The
  branch has computed the item's details before, by the rule that provides for an item
  without a type list.
\<close>

lemma parse_item_alpha_errors: "parse_item_alpha this it = Inl e \<Longrightarrow> e = TypeError"
  by (auto simp: parse_item_alpha_def view_of_def split: sum.splits option.splits list.splits)

lemma parse_item_alpha_without_type:
  "item_type it = None \<or> item_type it = Some [] \<Longrightarrow> parse_item_alpha this it = Inl TypeError"
  by (auto simp: parse_item_alpha_def view_of_def split: sum.splits option.splits)

lemma parseResponse_alpha_throws:
  assumes "version = Some ''0.3.0-alpha''"
    and "result_at_0 obj = Inr its"
    and "\<exists>it \<in> set its. item_type it = None \<or> item_type it = Some []"
  shows "parseResponse this version obj = Inl TypeError"
proof -
  from assms(3) have "\<exists>it \<in> set its. parse_item_alpha this it = Inl TypeError"
    by (blast intro: parse_item_alpha_without_type)
  moreover have "\<forall>it \<in> set its. \<forall>e'. parse_item_alpha this it = Inl e' \<longrightarrow> e' = TypeError"
    by (blast dest: parse_item_alpha_errors)
  ultimately have "forEach_push (parse_item_alpha this) its [] = Inl TypeError"
    by (rule forEach_push_throws)
  with assms(1,2) show ?thesis by (simp add: parseResponse_def)
qed

text \<open>An empty description does not count as one: the type names are taken.\<close>

lemma description_of_empty_description:
  "item_description it = Some [] \<Longrightarrow> item_type it = Some ts \<Longrightarrow>
     description_of it = join (map type_name ts) '', ''"
  by (simp add: description_of_def truthy_def)

text \<open>
  Claim C9, at the input where the code departs from it: a connector that has
  negotiated \<open>0.3.0-alpha\<close> and the response
  \<open>[{result: [{id: b, name: Y, description: a person}]}]\<close>, whose one item has a
  description and no type list. The claim has the item's record carry the description
  as its details; the code throws a \<open>TypeError\<close>, the parser produces no record and
  \<open>query\<close> rejects. The same item under \<open>q0\<close>, parsed by the default branch,
  gives the record with the description as its details, and so does the branch for
  \<open>0.3.0-alpha\<close> once the item has a type.
\<close>

theorem parseResponse_alpha_untyped_item:
  "reconcVersion alpha_plain_connector = Some ''0.3.0-alpha'' \<and>
   parseResponse alpha_plain_connector (reconcVersion alpha_plain_connector)
     (Batch [[described_only]]) = Inl TypeError \<and>
   ReconciliationService_query alpha_plain_connector (answers (Batch [[described_only]])) ''Y'' =
     Rejected TypeError \<and>
   parseResponse legacy_connector (reconcVersion legacy_connector)
     (ByQuery [(''q0'', [described_only])]) =
     Inr \<lparr>totalItems = 1,
          items = [\<lparr>result_register = ''people'', result_id = ''b'', label = ''Y'',
                    result_type = None, details = ''a person'', score = None, link = ''b'',
                    provider = ''Reconciliation''\<rparr>]\<rparr> \<and>
   parseResponse alpha_plain_connector (reconcVersion alpha_plain_connector)
     (Batch [[described_only\<lparr>item_type := Some [\<lparr>type_name = ''Person''\<rparr>]\<rparr>]]) =
     Inr \<lparr>totalItems = 1,
          items = [\<lparr>result_register = ''people'', result_id = ''b'', label = ''Y'',
                    result_type = Some (TypeName ''Person''), details = ''a person'',
                    score = None, link = ''b'', provider = ''Reconciliation''\<rparr>]\<rparr>"
  by code_simp

text \<open>
  The response \<open>{q0: {result: [{id: a, name: X, type: [{name: Person}]}]}}\<close>, parsed
  by the default branch: one record, whose details are the type name.
\<close>

lemma parseResponse_default_example:
  "parseResponse legacy_connector None (ByQuery [(''q0'', [person])]) =
     Inr \<lparr>totalItems = 1,
          items = [\<lparr>result_register = ''people'', result_id = ''a'', label = ''X'',
                    result_type = Some (Types [\<lparr>type_name = ''Person''\<rparr>]),
                    details = ''Person'', score = None, link = ''a'',
                    provider = ''Reconciliation''\<rparr>]\<rparr>"
proof -
  have c: "ReconcConfig legacy_connector = Some unversioned_manifest"
    by (simp add: legacy_connector_def receiveManifest_def unversioned_manifest_def)
  have v: "None \<noteq> Some ''0.3.0-alpha''" by simp
  have r: "result_at_q0 (ByQuery [(''q0'', [person])]) = Inr [person]" by simp
  have reg: "register legacy_connector = ''people''" "prefix legacy_connector = None"
    by (simp_all add: legacy_connector_def receiveManifest_def constructed_def Let_def)
  from parseResponse_default_total [OF c v r] reg show ?thesis
    by (simp add: person_def prefixed_def truthy_def unversioned_manifest_def)
qed

section \<open>\<open>info\<close> and \<open>getRecord\<close> of the reconciliation-service connector\<close>

text \<open>
  Claim C8. For a non-empty id, on a connector whose manifest has arrived and has no
  \<open>preview\<close>, \<open>info\<close> returns normally, leaves the fixed message in the container
  (whatever was there, and whatever the network would answer), and its promise is
  resolved, not rejected. The value it resolves with is \<open>undefined\<close>: a descriptor
  with nothing in it, not even an id. The message is not empty.
\<close>

theorem info_without_preview:
  assumes "ident \<noteq> []" and "ReconcConfig this = Some config" and "preview config = None"
  shows "ReconciliationService_info this fetch_text ident container =
           Inr (Resolved None, no_preview_message) \<and>
         no_preview_message \<noteq> []"
  using assms by (simp add: ReconciliationService_info_def no_preview_message_def)

theorem info_without_preview_witness:
  "ReconciliationService_info legacy_connector (finds ''<p>preview</p>'') ''a'' ''shown before'' =
     Inr (Resolved None, ''no 'preview' endpoint in reconciliation service's manifest'')"
proof -
  have c: "ReconcConfig legacy_connector = Some unversioned_manifest"
    by (simp add: legacy_connector_def receiveManifest_def unversioned_manifest_def)
  have p: "preview unversioned_manifest = None"
    by (simp add: unversioned_manifest_def)
  have i: "''a'' \<noteq> []" by simp
  from info_without_preview [OF i c p, of "finds ''<p>preview</p>''" "''shown before''"]
  show ?thesis by (simp add: no_preview_message_def)
qed

text \<open>
  \<open>getRecord\<close> on a connector whose manifest has no \<open>view\<close>: with one item in the
  answer to the sub-query it resolves with that item's record (its link is the raw id);
  with no item in the answer it resolves with \<open>undefined\<close>. It rejects in neither
  case.
\<close>

theorem getRecord_counterexample:
  "ReconcConfig legacy_connector = Some unversioned_manifest \<and>
   view unversioned_manifest = None \<and>
   ReconciliationService_getRecord legacy_connector (answers (ByQuery [(''q0'', [person])])) ''a'' =
     Resolved (Some \<lparr>result_register = ''people'', result_id = ''a'', label = ''X'',
                      result_type = Some (Types [\<lparr>type_name = ''Person''\<rparr>]),
                      details = ''Person'', score = None, link = ''a'',
                      provider = ''Reconciliation''\<rparr>) \<and>
   ReconciliationService_getRecord legacy_connector (answers (ByQuery [(''q0'', [])])) ''a'' =
     Resolved None"
  by code_simp

text \<open>
  Claim C3, as the code has it. \<open>getRecord(key)\<close> runs \<open>query\<close> on the key without
  the register prefix (the prefix and the hyphen after it are cut off; without a prefix
  the key is taken as it is). When the query resolves, \<open>getRecord\<close> resolves with the
  first record of the query's item list, and with \<open>undefined\<close> when the list is empty;
  when the query rejects, \<open>getRecord\<close> rejects with the same reason; when the query
  never settles, neither does \<open>getRecord\<close>. This holds with and without a
  \<open>view\<close> in the manifest: \<open>getRecord\<close> makes no test of it.
\<close>

theorem getRecord_first_item:
  "(\<forall>r. ReconciliationService_query this fetch_json (raw_id this key) = Resolved r \<longrightarrow>
        ReconciliationService_getRecord this fetch_json key =
          Resolved (case items r of [] \<Rightarrow> None | x # xs \<Rightarrow> Some x)) \<and>
   (\<forall>e. ReconciliationService_query this fetch_json (raw_id this key) = Rejected e \<longrightarrow>
        ReconciliationService_getRecord this fetch_json key = Rejected e) \<and>
   (ReconciliationService_query this fetch_json (raw_id this key) = Pending \<longrightarrow>
        ReconciliationService_getRecord this fetch_json key = Pending) \<and>
   (\<forall>p x. prefix this = Some p \<and> p \<noteq> [] \<longrightarrow> raw_id this (p @ ''-'' @ x) = x) \<and>
   (\<not> truthy (prefix this) \<longrightarrow> raw_id this key = key)"
  by (simp add: ReconciliationService_getRecord_def raw_id_def truthy_def substring_def)

text \<open>A connector with the prefix \<open>gnd\<close>: the key \<open>gnd-a\<close> is looked up as \<open>a\<close>,
  and the record found carries the prefixed id.\<close>

theorem getRecord_first_item_witness:
  "ReconciliationService_getRecord (legacy_connector\<lparr>prefix := Some ''gnd''\<rparr>)
     (answers (ByQuery [(''q0'', [person])])) ''gnd-a'' =
     Resolved (Some \<lparr>result_register = ''people'', result_id = ''gnd-a'', label = ''X'',
                      result_type = Some (Types [\<lparr>type_name = ''Person''\<rparr>]),
                      details = ''Person'', score = None, link = ''a'',
                      provider = ''Reconciliation''\<rparr>) \<and>
   raw_id (legacy_connector\<lparr>prefix := Some ''gnd''\<rparr>) ''gnd-a'' = ''a''"
proof -
  let ?connector = "legacy_connector\<lparr>prefix := Some ''gnd''\<rparr>"
  let ?found = "\<lparr>result_register = ''people'', result_id = ''gnd-a'', label = ''X'',
                      result_type = Some (Types [\<lparr>type_name = ''Person''\<rparr>]),
                      details = ''Person'', score = None, link = ''a'',
                      provider = ''Reconciliation''\<rparr>"
  have p: "prefix ?connector = Some ''gnd'' \<and> ''gnd'' \<noteq> []" by simp
  have q: "ReconciliationService_query ?connector (answers (ByQuery [(''q0'', [person])])) ''a'' =
             Resolved \<lparr>totalItems = 1, items = [?found]\<rparr>"
    by code_simp
  from getRecord_first_item [of ?connector "answers (ByQuery [(''q0'', [person])])" "''gnd-a''"] p
  have raw: "raw_id ?connector (''gnd'' @ ''-'' @ ''a'') = ''a''" by blast
  then have raw': "raw_id ?connector ''gnd-a'' = ''a''" by simp
  from getRecord_first_item [of ?connector "answers (ByQuery [(''q0'', [person])])" "''gnd-a''"]
  have "\<forall>r. ReconciliationService_query ?connector (answers (ByQuery [(''q0'', [person])]))
               (raw_id ?connector ''gnd-a'') = Resolved r \<longrightarrow>
             ReconciliationService_getRecord ?connector (answers (ByQuery [(''q0'', [person])])) ''gnd-a'' =
               Resolved (case items r of [] \<Rightarrow> None | x # xs \<Rightarrow> Some x)"
    by blast
  with q raw' have "ReconciliationService_getRecord ?connector (answers (ByQuery [(''q0'', [person])])) ''gnd-a'' =
      Resolved (Some ?found)"
    by simp
  with raw' show ?thesis by simp
qed

text \<open>
  Whether the manifest has a \<open>view\<close> decides the link of a record and nothing else:
  with the \<open>view\<close> changed or taken away, \<open>getRecord\<close> ends in the same state,
  with the same record up to its link.
\<close>

lemma forEach_push_related:
  assumes "\<And>x. rel_sum (=) R (f x) (g x)" and "list_all2 R acc acc'"
  shows "rel_sum (=) (list_all2 R) (forEach_push f xs acc) (forEach_push g xs acc')"
  using assms(2)
proof (induction xs arbitrary: acc acc')
  case Nil
  then show ?case by simp
next
  case (Cons x xs)
  show ?case
  proof (cases "f x")
    case (Inl e)
    with assms(1) [of x] show ?thesis by (cases "g x") simp_all
  next
    case (Inr r)
    with assms(1) [of x] obtain r' where g: "g x = Inr r'" and R: "R r r'"
      by (cases "g x") simp_all
    from Cons.prems R have "list_all2 R (acc @ [r]) (acc' @ [r'])"
      by (simp add: list_all2_appendI)
    from Cons.IH [OF this] Inr g show ?thesis by simp
  qed
qed

lemma parse_item_view_irrelevant:
  assumes "ReconcConfig this = Some config"
  shows "rel_sum (=) (\<lambda>a b. a\<lparr>link := []\<rparr> = b\<lparr>link := []\<rparr>)
           (parse_item_alpha this it)
           (parse_item_alpha (this\<lparr>ReconcConfig := Some (config\<lparr>view := v\<rparr>)\<rparr>) it)"
    and "rel_sum (=) (\<lambda>a b. a\<lparr>link := []\<rparr> = b\<lparr>link := []\<rparr>)
           (parse_item_default this it)
           (parse_item_default (this\<lparr>ReconcConfig := Some (config\<lparr>view := v\<rparr>)\<rparr>) it)"
  using assms
  by (auto simp: parse_item_alpha_def parse_item_default_def view_of_def prefixed_def
           split: option.splits list.splits)

lemma getRecord_view_irrelevant:
  assumes "ReconcConfig this = Some config"
  shows "rel_promise (rel_option (\<lambda>a b. a\<lparr>link := []\<rparr> = b\<lparr>link := []\<rparr>))
           (ReconciliationService_getRecord this fetch_json key)
           (ReconciliationService_getRecord (this\<lparr>ReconcConfig := Some (config\<lparr>view := v\<rparr>)\<rparr>) fetch_json key)"
proof -
  let ?R = "\<lambda>a b. a\<lparr>link := []\<rparr> = b\<lparr>link := (([])::string)\<rparr>"
  let ?that = "this\<lparr>ReconcConfig := Some (config\<lparr>view := v\<rparr>)\<rparr>"
  have req: "query_request ?that k = query_request this k" for k
    by (simp add: query_request_def Let_def del: qRequestInit.simps split: option.splits)
  have raw: "raw_id ?that key = raw_id this key"
    by (simp add: raw_id_def)
  have parse: "rel_sum (=) (\<lambda>r r'. totalItems r = totalItems r' \<and> list_all2 ?R (items r) (items r'))
                 (parseResponse this (reconcVersion this) json)
                 (parseResponse ?that (reconcVersion ?that) json)" for json
  proof (cases "reconcVersion this = Some ''0.3.0-alpha''")
    case True
    show ?thesis
    proof (cases "result_at_0 json")
      case (Inl e)
      with True show ?thesis by (simp add: parseResponse_def)
    next
      case (Inr res)
      from forEach_push_related [of ?R "parse_item_alpha this" "parse_item_alpha ?that" "[]" "[]" res]
        parse_item_view_irrelevant(1) [OF assms]
      have "rel_sum (=) (list_all2 ?R) (forEach_push (parse_item_alpha this) res [])
              (forEach_push (parse_item_alpha ?that) res [])" by simp
      with True Inr show ?thesis
        by (cases "forEach_push (parse_item_alpha this) res []";
            cases "forEach_push (parse_item_alpha ?that) res []")
           (simp_all add: parseResponse_def)
    qed
  next
    case False
    show ?thesis
    proof (cases "result_at_q0 json")
      case (Inl e)
      with False show ?thesis by (simp add: parseResponse_def)
    next
      case (Inr res)
      from forEach_push_related [of ?R "parse_item_default this" "parse_item_default ?that" "[]" "[]" res]
        parse_item_view_irrelevant(2) [OF assms]
      have "rel_sum (=) (list_all2 ?R) (forEach_push (parse_item_default this) res [])
              (forEach_push (parse_item_default ?that) res [])" by simp
      with False Inr show ?thesis
        by (cases "forEach_push (parse_item_default this) res []";
            cases "forEach_push (parse_item_default ?that) res []")
           (simp_all add: parseResponse_def)
    qed
  qed
  show ?thesis
  proof (cases "query_request this (raw_id this key)")
    case (Inl e)
    with req raw show ?thesis
      by (simp add: ReconciliationService_getRecord_def ReconciliationService_query_def)
  next
    case (Inr qInit)
    show ?thesis
    proof (cases "fetch_json (endpoint this) qInit")
      case (Resolved json)
      from parse [of json] Inr Resolved req raw show ?thesis
        by (cases "parseResponse this (reconcVersion this) json";
            cases "parseResponse ?that (reconcVersion ?that) json")
           (auto simp: ReconciliationService_getRecord_def ReconciliationService_query_def
                 list_all2_Cons1 split: list.splits)
    qed (use Inr req raw in \<open>simp_all add: ReconciliationService_getRecord_def ReconciliationService_query_def\<close>)
  qed
qed

text \<open>The other variant of \<open>getRecord\<close> runs no query, and without a \<open>view\<close> in the
  manifest it rejects, without a reason.\<close>

lemma getRecord_from_view_without_view:
  "ReconcConfig this = Some config \<Longrightarrow> view config = None \<Longrightarrow>
     getRecord_from_view this fetch key = Rejected NoReason"
  by (simp add: getRecord_from_view_def)

section \<open>\<open>query\<close> of the custom connector\<close>

lemma local_forEach_eq:
  "local_forEach this json results localResults =
     (results @ map (local_result this) json, localResults \<union> set (map local_id json))"
  by (induction json arbitrary: results localResults) auto




text \<open>Two children that return the same id both contribute it.\<close>

lemma Custom_query_children_not_deduplicated:
  "Custom_query
     (local_register
        [child (Resolved \<lparr>totalItems = 1, items = [remote_record ''2'']\<rparr>)
           (Pending, []) (Pending :: unit option promise),
         child (Resolved \<lparr>totalItems = 1, items = [remote_record ''2'']\<rparr>) (Pending, []) Pending])
     (finds []) ''x'' =
   Resolved \<lparr>totalItems = 2, items = [remote_record ''2'', remote_record ''2'']\<rparr>"
  by (simp add: Custom_query_def finds_def local_register_def child_def)

text \<open>
  A child whose query does not resolve is not skipped. The loop awaits the child's query
  without a handler for its rejection, so the callback ends there, \<open>resolve\<close> is never
  called, and the promise of the custom connector's query never settles.
\<close>

lemma query_connectors_unsettled:
  "\<exists>c \<in> set cs. \<forall>dr. connector_query c key \<noteq> Resolved dr \<Longrightarrow>
     query_connectors cs key localResults results n = Pending"
proof (induction cs arbitrary: results n)
  case Nil
  then show ?case by simp
next
  case (Cons c cs)
  show ?case
  proof (cases "connector_query c key")
    case (Resolved dr)
    with Cons.prems have "\<exists>c \<in> set cs. \<forall>dr. connector_query c key \<noteq> Resolved dr" by auto
    from Cons.IH [OF this] Resolved show ?thesis by simp
  qed simp_all
qed

lemma Custom_query_unsettled:
  "\<exists>c \<in> set (custom_connectors this). \<forall>dr. connector_query c key \<noteq> Resolved dr \<Longrightarrow>
     Custom_query this fetch_json key = Pending"
  by (auto simp: Custom_query_def local_forEach_eq query_connectors_unsettled split: promise.splits)

text \<open>
  Claim C2, at the input where the code departs from it: the local register answers with
  one record, the query of the first child rejects and the query of the second child
  resolves. The claim has the call resolve with the local record and the second child's
  items; the code's promise never settles.
\<close>

theorem Custom_query_child_rejects:
  "Custom_query
     (local_register
        [child (Rejected (Failure ''unreachable'')) (Pending, []) (Pending :: unit option promise),
         child (Resolved \<lparr>totalItems = 1, items = [remote_record ''2'']\<rparr>) (Pending, []) Pending])
     (finds [local_one]) ''x'' = Pending"
  by (simp add: Custom_query_def finds_def local_register_def child_def)

section \<open>\<open>info\<close> of the custom connector\<close>

lemma info_connectors_all:
  "Pending \<notin> set (fst (info_all cs key container)) \<Longrightarrow>
   info_connectors cs key p container n =
     (case p of
        Pending \<Rightarrow> (case first_descriptor (fst (info_all cs key container)) of
                      None \<Rightarrow> Pending
                    | Some d \<Rightarrow> Resolved (Some d))
      | _ \<Rightarrow> p,
      snd (info_all cs key container), n + length cs, True)"
proof (induction cs arbitrary: p container n)
  case Nil
  then show ?case by (simp split: promise.splits)
next
  case (Cons c cs)
  obtain q container' where step: "connector_info c key container = (q, container')"
    by (cases "connector_info c key container")
  obtain ps final where rest: "info_all cs key container' = (ps, final)"
    by (cases "info_all cs key container'")
  from Cons.prems step rest have q: "q \<noteq> Pending"
    and ps: "Pending \<notin> set (fst (info_all cs key container'))"
    by auto
  show ?case
  proof (cases q)
    case Pending
    with q show ?thesis by simp
  next
    case (Rejected e)
    with Cons.IH [OF ps] step rest show ?thesis by (simp split: promise.splits)
  next
    case (Resolved cr)
    with Cons.IH [OF ps] step rest show ?thesis
      by (cases cr; cases p) (simp_all add: settle_def split: option.splits)
  qed
qed

text \<open>
  Claim C10. Let the key be non-empty and the local register answer 404, and let every
  child's \<open>info\<close> settle (resolve or reject) in the run that calls them all, each with
  the container as the child before left it. Then the custom connector's \<open>info\<close> has
  called \<open>info\<close> of every child, also of those after the one whose descriptor
  resolved the promise; the container is as the last child left it; and the promise is
  resolved with the first descriptor a child resolved with, or rejected when no child
  resolved with one.
\<close>

theorem Custom_info_calls_every_child:
  assumes "key \<noteq> []"
    and "fetch (entry_url this key) = Resolved response"
    and "status response = 404"
    and "Pending \<notin> set (fst (info_all (custom_connectors this) key container))"
  shows "Custom_info this fetch key container =
           (case first_descriptor (fst (info_all (custom_connectors this) key container)) of
              None \<Rightarrow> Rejected NoReason
            | Some d \<Rightarrow> Resolved (Some d),
            snd (info_all (custom_connectors this) key container),
            length (custom_connectors this))"
  using assms(1-3) info_connectors_all [OF assms(4), of Pending 0]
  by (simp add: Custom_info_def ok_def settle_def split: option.splits)

text \<open>
  Two children that both resolve with a descriptor, the first writing \<open>A\<close> into the
  container and the second \<open>B\<close>: the promise is resolved with the first child's
  descriptor, both children were called, and the container shows what the second wrote.
\<close>

theorem Custom_info_calls_every_child_witness:
  "Custom_info
     (local_register
        [child Pending (Resolved (Some (described ''a'')), ''A'') (Pending :: unit option promise),
         child Pending (Resolved (Some (described ''b'')), ''B'') Pending])
     (finds \<lparr>status = 404, content = Pending\<rparr>) ''k'' ''shown before'' =
   (Resolved (Some (described ''a'')), ''B'', 2)"
proof -
  let ?custom = "local_register
        [child Pending (Resolved (Some (described ''a'')), ''A'') (Pending :: unit option promise),
         child Pending (Resolved (Some (described ''b'')), ''B'') Pending]"
  let ?response = "\<lparr>status = 404, content = (Pending :: local_entry promise)\<rparr>"
  have k: "''k'' \<noteq> []" by simp
  have f: "finds ?response (entry_url ?custom ''k'') = Resolved ?response"
    by (simp add: finds_def)
  have s: "status ?response = 404" by simp
  have runs: "info_all (custom_connectors ?custom) ''k'' ''shown before'' =
                ([Resolved (Some (described ''a'')), Resolved (Some (described ''b''))], ''B'')"
    by (simp add: local_register_def child_def)
  then have p: "Pending \<notin> set (fst (info_all (custom_connectors ?custom) ''k'' ''shown before''))"
    by simp
  from Custom_info_calls_every_child [of "''k''" "finds ?response" ?custom ?response "''shown before''"]
    k f s p runs
  show ?thesis by (simp add: local_register_def)
qed

section \<open>\<open>select\<close> of the custom connector\<close>





end
